theory Spec2Isabelle
  imports Complex_Main "HOL-Library.AList"
begin

section \<open>Data model of \<open>switchyard/llnetreal.py\<close>\<close>

text \<open>
  Link-layer types (the enum \<open>Dlt\<close> of the pcap binding). The module registers decoders
  for two of its members; every other member is \<open>DLT_OTHER\<close> with its number.
\<close>

datatype Dlt = DLT_EN10MB | DLT_NULL | DLT_OTHER nat

text \<open>The header classes handed to the \<open>Packet\<close> constructor as \<open>first_header\<close>.\<close>

datatype header = Ethernet | Null

type_synonym bytes = "nat list"

text \<open>
  What a device's \<open>recv_packet\<close> hands to the worker: the code reads its attributes
  \<open>timestamp\<close> and \<open>raw\<close>. Timestamps and timeouts are Python floats; they are modelled
  as reals, of which the code only uses the order with \<open>0\<close>.
\<close>

record pktinfo =
  timestamp :: real
  raw :: bytes

text \<open>
  A queue entry is the tuple \<open>(devname, dlt, pktinfo)\<close>; each component may be Python's
  \<open>None\<close>. The signal handler's dummy entry is \<open>(None, None, None)\<close>.
\<close>

type_synonym entry = "string option \<times> Dlt option \<times> pktinfo option"

definition sentinel :: entry where
  "sentinel = (None, None, None)"

text \<open>
  Exceptions: the class and the message. \<open>Empty\<close> is \<open>queue.Empty\<close>; \<open>OtherError\<close> stands
  for the classes of the libraries the module calls. Only the messages the module itself
  formats are modelled; the others are left empty.
\<close>

datatype exn_class =
  SwitchyException | Shutdown | NoPackets | Empty | ValueError | AttributeError
  | OtherError string

datatype exn = Exn (exn_cls: exn_class) (exn_msg: string)

datatype ('p) ReceivedPacket =
  ReceivedPacket (rp_timestamp: real) (ingress_dev: "string option") (rp_packet: 'p)

text \<open>
  A \<open>PcapLiveDevice\<close>: the interface it is bound to, its link-layer type, its statistics
  \<open>(ps_recv, ps_drop, ps_ifdrop)\<close>, and how often \<open>close\<close> has been called on it.
\<close>

record pdev =
  pd_name :: string
  pd_dlt :: Dlt
  pd_stats :: "nat \<times> nat \<times> nat"
  pd_closes :: nat

text \<open>A worker thread, identified by the device name in its \<open>args\<close>.\<close>

datatype thread = Thread (th_devname: string)

text \<open>The externally visible effects, in the order they happen.\<close>

datatype event =
  Set_running bool
  | Start thread
  | Join thread
  | Close string
  | Poll string
  | Put entry
  | Stats string
  | Send string bytes
  | Log_debug string
  | Log_debug_stats string "nat \<times> nat \<times> nat"
  | Log_warn_unparseable "Dlt option"

text \<open>
  The object's fields, together with the class attribute \<open>LLNetReal.running\<close> and the
  history of effects. \<open>_pcaps\<close> is a dict: an association list in insertion order.
\<close>

record state =
  running :: bool
  devs :: "string list"
  pcaps :: "(string \<times> pdev) list"
  pktqueue :: "entry list"
  threads :: "thread list"
  trace :: "event list"

text \<open>An \<open>Interface\<close> object; \<open>send_packet\<close> reads its \<open>name\<close>.\<close>

record interface =
  if_name :: string
  if_num :: int

text \<open>
  The code this module calls and that lives in other modules, taken as parameters:
  the \<open>Packet\<close> constructor (which parses the raw bytes and may raise), \<open>Packet.to_bytes\<close>,
  \<open>str\<close> of a packet, \<open>LLNetBase._lookup_devname\<close>, \<open>PcapLiveDevice.send_packet\<close> and the
  \<open>PcapLiveDevice\<close> constructor.
\<close>

record 'p env =
  Packet :: "bytes \<Rightarrow> header \<Rightarrow> exn + 'p"
  to_bytes :: "'p \<Rightarrow> exn + bytes"
  pkt_str :: "'p \<Rightarrow> string"
  lookup_devname :: "int \<Rightarrow> exn + string"
  pcap_send :: "pdev \<Rightarrow> bytes \<Rightarrow> exn option"
  PcapLiveDevice :: "string \<Rightarrow> exn + pdev"

text \<open>What a call does: it returns a value, raises, or never comes back.\<close>

datatype 'a outcome = Returned 'a | Raised exn | Blocked

definition log_debug :: "string \<Rightarrow> state \<Rightarrow> state" where
  "log_debug m st = st\<lparr>trace := trace st @ [Log_debug m]\<rparr>"


section \<open>The decoder table\<close>

text \<open>
  \<open>_dlt_to_decoder.get(dlt, None)\<close>: the table has the keys \<open>Dlt.DLT_EN10MB\<close> and
  \<open>Dlt.DLT_NULL\<close>; the key looked up may be \<open>None\<close>.
\<close>

fun dlt_to_decoder :: "'p env \<Rightarrow> Dlt option \<Rightarrow> (bytes \<Rightarrow> exn + 'p) option" where
  "dlt_to_decoder env (Some DLT_EN10MB) = Some (\<lambda>raw. Packet env raw Ethernet)"
| "dlt_to_decoder env (Some DLT_NULL) = Some (\<lambda>raw. Packet env raw Null)"
| "dlt_to_decoder env _ = None"


section \<open>Construction\<close>



text \<open>
  The signals for which \<open>__init__\<close> installs \<open>_sig_handler\<close>, in the order of the calls of
  \<open>signal.signal\<close>.
\<close>

datatype signal = SIGINT | SIGTERM | SIGHUP | SIGUSR1 | SIGUSR2 | SIG_OTHER nat

definition handled_signals :: "signal list" where
  "handled_signals = [SIGINT, SIGTERM, SIGHUP, SIGUSR1, SIGUSR2]"



section \<open>The signal handler\<close>

definition sig_handler :: "signal \<Rightarrow> state \<Rightarrow> state" where
  "sig_handler signum st =
     (let st1 = log_debug ''Got SIGINT.'' st in
      if signum = SIGINT then
        (let st2 = st1\<lparr>running := False, trace := trace st1 @ [Set_running False]\<rparr> in
         if length (pktqueue st2) = 0
         then st2\<lparr>pktqueue := pktqueue st2 @ [sentinel],
                  trace := trace st2 @ [Put sentinel]\<rparr>
         else st2)
      else st1)"

text \<open>
  A signal arriving at the process once the object is built: a signal with an installed
  handler runs \<open>_sig_handler\<close>; what the system does with any other signal is not part of
  this module (\<open>None\<close>).
\<close>

definition deliver_signal :: "signal \<Rightarrow> state \<Rightarrow> state option" where
  "deliver_signal signum st =
     (if signum \<in> set handled_signals then Some (sig_handler signum st) else None)"


section \<open>Shutdown\<close>

text \<open>\<open>pdev.close()\<close> on one item of \<open>_pcaps\<close>.\<close>

definition pdev_close :: "string \<times> pdev \<Rightarrow> string \<times> pdev" where
  "pdev_close item = (fst item, (snd item)\<lparr>pd_closes := Suc (pd_closes (snd item))\<rparr>)"

definition shutdown :: "state \<Rightarrow> state" where
  "shutdown st =
     (if \<not> running st then st
      else
        (let st1 = st\<lparr>running := False, trace := trace st @ [Set_running False]\<rparr>;
             st2 = log_debug ''Joining threads for shutdown'' st1;
             st3 = st2\<lparr>trace := trace st2 @ map Join (threads st2)\<rparr>;
             st4 = log_debug ''Closing pcap devices'' st3;
             st5 = st4\<lparr>pcaps := map pdev_close (pcaps st4),
                      trace := trace st4 @ map (\<lambda>item. Close (fst item)) (pcaps st4)\<rparr>
         in log_debug ''Done cleaning up'' st5))"


section \<open>The capture worker\<close>



section \<open>The send path\<close>

text \<open>
  The arguments of \<open>send_packet\<close>: the device is a name, a number or an \<open>Interface\<close>; the
  packet is \<open>None\<close>, a \<open>Packet\<close>, or an object of another type (given by the text of its
  type).
\<close>

datatype devref = DevName string | DevNum int | DevIntf interface

datatype 'p pyobj = PyNone | PyPacket 'p | PyOther string

text \<open>
  The first two statements of \<open>send_packet\<close>: a number is looked up with
  \<open>_lookup_devname\<close> (which raises for a number it does not know), an \<open>Interface\<close> gives
  its name, a name stays.
\<close>

definition resolve_dev :: "'p env \<Rightarrow> devref \<Rightarrow> exn + string" where
  "resolve_dev env dev =
     (case dev of
        DevNum n \<Rightarrow> lookup_devname env n
      | DevIntf i \<Rightarrow> Inr (if_name i)
      | DevName s \<Rightarrow> Inr s)"

definition send_packet ::
  "'p env \<Rightarrow> devref \<Rightarrow> 'p pyobj \<Rightarrow> state \<Rightarrow> unit outcome \<times> state" where
  "send_packet env dev packet st =
     (case resolve_dev env dev of
        Inl x \<Rightarrow> (Raised x, st)
      | Inr dev \<Rightarrow>
          (case map_of (pcaps st) dev of
             None \<Rightarrow>
               (Raised (Exn SwitchyException
                          (''Unrecognized device name for packet send: '' @ dev)), st)
           | Some pdev \<Rightarrow>
               (case packet of
                  PyNone \<Rightarrow>
                    (Raised (Exn SwitchyException ''No packet object given to send_packet''), st)
                | PyOther ty \<Rightarrow>
                    (Raised (Exn SwitchyException
                               (''Object given to send_packet is not a Packet (it is: ''
                                @ ty @ '')'')), st)
                | PyPacket p \<Rightarrow>
                    (case to_bytes env p of
                       Inl x \<Rightarrow> (Raised x, st)
                     | Inr rawpkt \<Rightarrow>
                         (let st1 = log_debug (''Sending packet on device '' @ dev @ '': ''
                                               @ pkt_str env p) st
                          in case pcap_send env pdev rawpkt of
                               Some x \<Rightarrow> (Raised x, st1)
                             | None \<Rightarrow>
                                 (Returned (), st1\<lparr>trace := trace st1 @ [Send dev rawpkt]\<rparr>))))))"


section \<open>A concrete configuration\<close>

text \<open>
  Two Ethernet interfaces, a codec that rejects an empty frame, and one captured frame;
  the instances of the theorems below are evaluated on them.
\<close>

definition example_env :: "bytes env" where
  "example_env =
     \<lparr>Packet = (\<lambda>raw h. if raw = [] then Inl (Exn (OtherError ''Exception'') []) else Inr raw),
      to_bytes = Inr,
      pkt_str = (\<lambda>p. ''Packet''),
      lookup_devname = (\<lambda>n. if n = 0 then Inr ''eth0''
                              else Inl (Exn SwitchyException ''No such interface'')),
      pcap_send = (\<lambda>d b. None),
      PcapLiveDevice = (\<lambda>dev. Inr \<lparr>pd_name = dev, pd_dlt = DLT_EN10MB,
                                     pd_stats = (0, 0, 0), pd_closes = 0\<rparr>)\<rparr>"

definition example_state :: state where
  "example_state =
     \<lparr>running = True, devs = [''eth0'', ''eth1''],
      pcaps = [(''eth0'', \<lparr>pd_name = ''eth0'', pd_dlt = DLT_EN10MB,
                           pd_stats = (0, 0, 0), pd_closes = 0\<rparr>),
               (''eth1'', \<lparr>pd_name = ''eth1'', pd_dlt = DLT_EN10MB,
                           pd_stats = (0, 0, 0), pd_closes = 0\<rparr>)],
      pktqueue = [], threads = [Thread ''eth0'', Thread ''eth1''], trace = []\<rparr>"

definition example_pktinfo :: pktinfo where
  "example_pktinfo = \<lparr>timestamp = 1, raw = [222, 173]\<rparr>"


section \<open>The receive path\<close>

text \<open>
  \<open>Queue.get(timeout=timeout)\<close> of the standard library, seen from the consumer while no
  other thread touches the queue: with no timeout it waits for an entry, which on an
  empty queue never comes; a negative timeout raises \<open>ValueError\<close> before the queue is
  looked at; otherwise an empty queue raises \<open>Empty\<close> when the time is over.
\<close>

datatype get_result = Got entry "entry list" | Get_raises exn | Get_blocks

fun queue_get :: "real option \<Rightarrow> entry list \<Rightarrow> get_result" where
  "queue_get None [] = Get_blocks"
| "queue_get None (e # q) = Got e q"
| "queue_get (Some t) q =
     (if t < 0 then Get_raises (Exn ValueError [])
      else case q of [] \<Rightarrow> Get_raises (Exn Empty []) | e # q' \<Rightarrow> Got e q')"

text \<open>How one pass through the body of \<open>while True\<close> leaves it.\<close>

datatype 'a flow = Continue | Break | Return 'a | Raise exn

text \<open>
  The statements of the \<open>try\<close> block after the pop, on the entry popped and the state at
  that moment.
\<close>

definition recv_body :: "'p env \<Rightarrow> entry \<Rightarrow> state \<Rightarrow> 'p ReceivedPacket flow \<times> state" where
  "recv_body env e st =
     (case e of (dev, dlt, pktinfo) \<Rightarrow>
        if \<not> running st then (Break, st)
        else (case dlt_to_decoder env dlt of
                None \<Rightarrow> (Continue, st\<lparr>trace := trace st @ [Log_warn_unparseable dlt]\<rparr>)
              | Some decoder \<Rightarrow>
                  (case pktinfo of
                     None \<Rightarrow> (Raise (Exn AttributeError []), st)
                   | Some p \<Rightarrow>
                       (case decoder (raw p) of
                          Inl x \<Rightarrow> (Raise x, st)
                        | Inr pkt \<Rightarrow> (Return (ReceivedPacket (timestamp p) dev pkt), st)))))"

text \<open>
  An exception raised inside the \<open>try\<close> block: \<open>except Empty\<close> turns \<open>Empty\<close> into
  \<open>Shutdown\<close> or \<open>NoPackets\<close> after reading the flag; any other exception goes through.
\<close>

definition recv_except :: "state \<Rightarrow> exn \<Rightarrow> exn" where
  "recv_except st x =
     (if exn_cls x = Empty
      then (if \<not> running st then Exn Shutdown [] else Exn NoPackets [])
      else x)"

function recv_packet ::
  "'p env \<Rightarrow> real option \<Rightarrow> state \<Rightarrow> 'p ReceivedPacket outcome \<times> state" where
  "recv_packet env timeout st =
     (case queue_get timeout (pktqueue st) of
        Get_blocks \<Rightarrow> (Blocked, st)
      | Get_raises x \<Rightarrow> (Raised (recv_except st x), st)
      | Got e q \<Rightarrow>
          (case recv_body env e (st\<lparr>pktqueue := q\<rparr>) of
             (Continue, st') \<Rightarrow> recv_packet env timeout st'
           | (Break, st') \<Rightarrow> (Raised (Exn Shutdown []), st')
           | (Return r, st') \<Rightarrow> (Returned r, st')
           | (Raise x, st') \<Rightarrow> (Raised (recv_except st' x), st')))"
  by pat_completeness auto

lemma queue_get_Got: "queue_get timeout q = Got e q' \<Longrightarrow> q = e # q'"
  by (cases "(timeout, q)" rule: queue_get.cases) (auto split: if_splits list.splits)

lemma recv_body_pktqueue: "recv_body env e st = (f, st') \<Longrightarrow> pktqueue st' = pktqueue st"
  by (auto simp: recv_body_def split: prod.splits if_splits option.splits sum.splits)

termination recv_packet
proof (relation "measure (\<lambda>(env, timeout, st). length (pktqueue st))")
  show "wf (measure (\<lambda>(env :: 'p env, timeout :: real option, st). length (pktqueue st)))"
    by simp
next
  fix env :: "'p env" and timeout st e q x and f :: "'p ReceivedPacket flow" and st'
  assume g: "queue_get timeout (pktqueue st) = Got e q"
    and b: "(f, st') = recv_body env e (st\<lparr>pktqueue := q\<rparr>)"
  from b have "pktqueue st' = q"
    using recv_body_pktqueue [of env e "st\<lparr>pktqueue := q\<rparr>" f st'] by simp
  with queue_get_Got [OF g]
  show "((env, timeout, st'), (env, timeout, st)) \<in> measure (\<lambda>(env, timeout, st). length (pktqueue st))"
    by simp
qed



section \<open>The states an object goes through\<close>



section \<open>Properties of the receive path\<close>


lemma recv_packet_skip_all:
  "running st \<Longrightarrow> 0 \<le> t \<Longrightarrow> pktqueue st = q \<Longrightarrow>
   \<forall>e\<in>set q. dlt_to_decoder env (fst (snd e)) = None \<Longrightarrow>
   recv_packet env (Some t) st =
     (Raised (Exn NoPackets []),
      st\<lparr>pktqueue := [], trace := trace st @ map (\<lambda>e. Log_warn_unparseable (fst (snd e))) q\<rparr>)"
proof (induction q arbitrary: st)
  case Nil
  then show ?case by (simp add: recv_except_def)
next
  case (Cons e q)
  obtain dev dlt p where e: "e = (dev, dlt, p)" by (cases e)
  let ?st = "st\<lparr>pktqueue := q, trace := trace st @ [Log_warn_unparseable dlt]\<rparr>"
  have body: "recv_body env e (st\<lparr>pktqueue := q\<rparr>) = (Continue, ?st)"
    using Cons.prems by (simp add: recv_body_def e)
  have "recv_packet env (Some t) st = recv_packet env (Some t) ?st"
    using Cons.prems body by (subst recv_packet.simps) simp
  also have "\<dots> = (Raised (Exn NoPackets []),
      ?st\<lparr>pktqueue := [], trace := trace ?st @ map (\<lambda>e. Log_warn_unparseable (fst (snd e))) q\<rparr>)"
    using Cons.prems by (intro Cons.IH) simp_all
  finally show ?case by (simp add: e)
qed

text \<open>
  C1. A call \<open>recv_packet(timeout)\<close> whose pop times out (a timeout that is not negative,
  and a queue that is empty, or that holds only entries that are skipped while the flag
  is true) raises \<open>Shutdown\<close> if the flag is false when the handler of \<open>Empty\<close> reads it,
  and \<open>NoPackets\<close> otherwise; there is no third result.
\<close>

theorem recv_packet_timed_out:
  assumes "0 \<le> t"
    and "pktqueue st = [] \<or>
         (running st \<and> (\<forall>e\<in>set (pktqueue st). dlt_to_decoder env (fst (snd e)) = None))"
  shows "recv_except st (Exn Empty []) = (if \<not> running st then Exn Shutdown [] else Exn NoPackets [])
       \<and> fst (recv_packet env (Some t) st) = Raised (if \<not> running st then Exn Shutdown [] else Exn NoPackets [])
       \<and> pktqueue (snd (recv_packet env (Some t) st)) = []"
proof (cases "pktqueue st = []")
  case True
  with assms(1) show ?thesis by (simp add: recv_except_def)
next
  case False
  with assms(2) have r: "running st"
    and u: "\<forall>e\<in>set (pktqueue st). dlt_to_decoder env (fst (snd e)) = None" by auto
  show ?thesis
    using recv_packet_skip_all [OF r assms(1) refl u] r by (simp add: recv_except_def)
qed


theorem recv_packet_timed_out_witness:
  "(0::real) \<le> 1 / 20
   \<and> (pktqueue (example_state\<lparr>pktqueue := [(Some ''eth0'', Some (DLT_OTHER 105), Some example_pktinfo)]\<rparr>) = []
      \<or> (running example_state
          \<and> (\<forall>e\<in>set [(Some ''eth0'', Some (DLT_OTHER 105), Some example_pktinfo)].
                dlt_to_decoder example_env (fst (snd e)) = None)))
   \<and> fst (recv_packet example_env (Some (1 / 20))
            (example_state\<lparr>pktqueue := [(Some ''eth0'', Some (DLT_OTHER 105), Some example_pktinfo)]\<rparr>))
      = Raised (Exn NoPackets [])"
proof -
  let ?st = "example_state\<lparr>pktqueue := [(Some ''eth0'', Some (DLT_OTHER 105), Some example_pktinfo)]\<rparr>"
  have h1: "(0::real) \<le> 1 / 20" by simp
  have h2: "pktqueue ?st = [] \<or>
            (running ?st \<and> (\<forall>e\<in>set (pktqueue ?st). dlt_to_decoder example_env (fst (snd e)) = None))"
    by (simp add: example_state_def)
  show ?thesis
    using recv_packet_timed_out [OF h1 h2] h1 h2 by (simp add: example_state_def)
qed

lemma recv_body_Return:
  "recv_body env (dev, dlt, p) st = (Return r, st') \<Longrightarrow>
   \<exists>p' decoder pkt. p = Some p' \<and> dlt_to_decoder env dlt = Some decoder
      \<and> decoder (raw p') = Inr pkt \<and> r = ReceivedPacket (timestamp p') dev pkt"
  by (auto simp: recv_body_def split: if_splits option.splits sum.splits)

lemma recv_packet_Returned:
  "recv_packet env timeout st = (Returned r, st') \<Longrightarrow>
   \<exists>dev dlt p decoder pkt.
      (dev, dlt, Some p) \<in> set (pktqueue st) \<and> dlt_to_decoder env dlt = Some decoder
      \<and> decoder (raw p) = Inr pkt \<and> r = ReceivedPacket (timestamp p) dev pkt"
proof (induction env timeout st rule: recv_packet.induct)
  case (1 env timeout st)
  show ?case
  proof (cases "queue_get timeout (pktqueue st)")
    case (Got e q)
    then have q: "pktqueue st = e # q" by (rule queue_get_Got)
    obtain dev dlt p where e: "e = (dev, dlt, p)" by (cases e)
    obtain f st1 where b: "recv_body env e (st\<lparr>pktqueue := q\<rparr>) = (f, st1)"
      by (cases "recv_body env e (st\<lparr>pktqueue := q\<rparr>)")
    show ?thesis
    proof (cases f)
      case Continue
      have st1: "pktqueue st1 = q" using recv_body_pktqueue [OF b] by simp
      have "recv_packet env timeout st1 = (Returned r, st')"
        using "1.prems" Got b Continue by (subst (asm) recv_packet.simps) simp
      from "1.IH" [OF Got b [symmetric] Continue this]
      obtain dev' dlt' p' decoder pkt where
        "(dev', dlt', Some p') \<in> set (pktqueue st1)" "dlt_to_decoder env dlt' = Some decoder"
        "decoder (raw p') = Inr pkt" "r = ReceivedPacket (timestamp p') dev' pkt"
        by blast
      then show ?thesis unfolding q st1 by (intro exI [of _ dev'] exI [of _ dlt'] exI [of _ p'] exI [of _ decoder] exI [of _ pkt]) simp
    next
      case Break
      then show ?thesis using "1.prems" Got b by (subst (asm) recv_packet.simps) simp
    next
      case (Return r')
      have "r' = r" using "1.prems" Got b Return by (subst (asm) recv_packet.simps) simp
      with b Return e have "recv_body env (dev, dlt, p) (st\<lparr>pktqueue := q\<rparr>) = (Return r, st1)"
        by simp
      from recv_body_Return [OF this]
      obtain p' decoder pkt where
        "p = Some p'" "dlt_to_decoder env dlt = Some decoder"
        "decoder (raw p') = Inr pkt" "r = ReceivedPacket (timestamp p') dev pkt"
        by blast
      then show ?thesis unfolding q e
        by (intro exI [of _ dev] exI [of _ dlt] exI [of _ p'] exI [of _ decoder] exI [of _ pkt]) simp
    next
      case (Raise x)
      then show ?thesis using "1.prems" Got b by (subst (asm) recv_packet.simps) simp
    qed
  next
    case (Get_raises x)
    then show ?thesis using "1.prems" by (subst (asm) recv_packet.simps) simp
  next
    case Get_blocks
    then show ?thesis using "1.prems" by (subst (asm) recv_packet.simps) simp
  qed
qed

lemma recv_packet_Break:
  "\<not> running st \<Longrightarrow> queue_get timeout (pktqueue st) = Got e q \<Longrightarrow>
   recv_packet env timeout st = (Raised (Exn Shutdown []), st\<lparr>pktqueue := q\<rparr>)"
  by (subst recv_packet.simps) (simp add: recv_body_def split: prod.splits)

lemma recv_packet_Continue:
  "running st \<Longrightarrow> dlt_to_decoder env dlt = None \<Longrightarrow>
   queue_get timeout (pktqueue st) = Got (dev, dlt, p) q \<Longrightarrow>
   recv_packet env timeout st =
     recv_packet env timeout (st\<lparr>pktqueue := q, trace := trace st @ [Log_warn_unparseable dlt]\<rparr>)"
  by (subst recv_packet.simps) (simp add: recv_body_def)

text \<open>
  C5. When the entry popped is the sentinel \<open>(None, None, None)\<close> and the flag is false,
  \<open>recv_packet\<close> raises \<open>Shutdown\<close>. Whatever the flag is, the pass over the sentinel ends
  in \<open>break\<close> or \<open>continue\<close> (with the flag true the sentinel has no decoder and is
  skipped with a warning), and a value that \<open>recv_packet\<close> returns was decoded from an
  entry of the queue that is not the sentinel.
\<close>

theorem recv_packet_sentinel:
  "(\<not> running st \<and> queue_get timeout (pktqueue st) = Got sentinel q \<longrightarrow>
      recv_packet env timeout st = (Raised (Exn Shutdown []), st\<lparr>pktqueue := q\<rparr>))
   \<and> (running st \<and> queue_get timeout (pktqueue st) = Got sentinel q \<longrightarrow>
      recv_packet env timeout st =
        recv_packet env timeout
          (st\<lparr>pktqueue := q, trace := trace st @ [Log_warn_unparseable None]\<rparr>))
   \<and> fst (recv_body env sentinel st) \<in> {Break, Continue}
   \<and> (recv_packet env timeout st = (Returned r, st') \<longrightarrow>
      (\<exists>e\<in>set (pktqueue st). e \<noteq> sentinel \<and>
         (\<exists>p decoder pkt. snd (snd e) = Some p \<and> dlt_to_decoder env (fst (snd e)) = Some decoder
            \<and> decoder (raw p) = Inr pkt \<and> r = ReceivedPacket (timestamp p) (fst e) pkt)))"
proof (intro conjI impI)
  assume "\<not> running st \<and> queue_get timeout (pktqueue st) = Got sentinel q"
  then show "recv_packet env timeout st = (Raised (Exn Shutdown []), st\<lparr>pktqueue := q\<rparr>)"
    using recv_packet_Break by blast
next
  assume a: "running st \<and> queue_get timeout (pktqueue st) = Got sentinel q"
  have "dlt_to_decoder env None = None" by simp
  with a show "recv_packet env timeout st =
        recv_packet env timeout
          (st\<lparr>pktqueue := q, trace := trace st @ [Log_warn_unparseable None]\<rparr>)"
    using recv_packet_Continue [of st env None timeout None None q]
    by (simp add: sentinel_def)
next
  show "fst (recv_body env sentinel st) \<in> {Break, Continue}"
    by (simp add: recv_body_def sentinel_def)
next
  assume "recv_packet env timeout st = (Returned r, st')"
  from recv_packet_Returned [OF this]
  obtain dev dlt p decoder pkt where
    m: "(dev, dlt, Some p) \<in> set (pktqueue st)" and d: "dlt_to_decoder env dlt = Some decoder"
    and k: "decoder (raw p) = Inr pkt" and r: "r = ReceivedPacket (timestamp p) dev pkt"
    by blast
  have "(dev, dlt, Some p) \<noteq> sentinel" by (simp add: sentinel_def)
  with m d k r show "\<exists>e\<in>set (pktqueue st). e \<noteq> sentinel \<and>
         (\<exists>p decoder pkt. snd (snd e) = Some p \<and> dlt_to_decoder env (fst (snd e)) = Some decoder
            \<and> decoder (raw p) = Inr pkt \<and> r = ReceivedPacket (timestamp p) (fst e) pkt)"
    by (intro bexI [of _ "(dev, dlt, Some p)"]) auto
qed

theorem recv_packet_sentinel_witness:
  "recv_packet example_env None (example_state\<lparr>running := False, pktqueue := [sentinel]\<rparr>)
     = (Raised (Exn Shutdown []), example_state\<lparr>running := False, pktqueue := []\<rparr>)
   \<and> recv_packet example_env None
        (example_state\<lparr>pktqueue := [sentinel, (Some ''eth0'', Some DLT_EN10MB, Some example_pktinfo)]\<rparr>)
     = (Returned (ReceivedPacket 1 (Some ''eth0'') [222, 173]),
        example_state\<lparr>trace := [Log_warn_unparseable None]\<rparr>)
   \<and> (Some ''eth0'', Some DLT_EN10MB, Some example_pktinfo) \<noteq> sentinel"
proof -
  let ?s0 = "example_state\<lparr>running := False, pktqueue := [sentinel]\<rparr>"
  have "\<not> running ?s0 \<and> queue_get None (pktqueue ?s0) = Got sentinel []" by simp
  with recv_packet_sentinel [of ?s0 None "[]" example_env]
  have a: "recv_packet example_env None ?s0 = (Raised (Exn Shutdown []), ?s0\<lparr>pktqueue := []\<rparr>)"
    by blast
  show ?thesis using a
    by (simp add: sentinel_def example_state_def example_env_def example_pktinfo_def
        recv_body_def)
qed

text \<open>
  C6, as amended. An entry whose link-layer type has no decoder in the table is never
  returned: the pass over it ends in \<open>break\<close> or \<open>continue\<close>. If the flag is true after
  the pop, the warning is logged and \<open>recv_packet\<close> goes on with the rest of the queue; if
  the flag is false after the pop, the entry is dropped without a warning and
  \<open>recv_packet\<close> raises \<open>Shutdown\<close>. A value that \<open>recv_packet\<close> returns was decoded
  from an entry whose type has a decoder.
\<close>

theorem recv_packet_skips_undecodable:
  "(dlt_to_decoder env dlt = None \<longrightarrow> fst (recv_body env (dev, dlt, p) st) \<in> {Break, Continue})
   \<and> (running st \<and> dlt_to_decoder env dlt = None
        \<and> queue_get timeout (pktqueue st) = Got (dev, dlt, p) q \<longrightarrow>
      recv_body env (dev, dlt, p) (st\<lparr>pktqueue := q\<rparr>)
        = (Continue, st\<lparr>pktqueue := q, trace := trace st @ [Log_warn_unparseable dlt]\<rparr>)
      \<and> recv_packet env timeout st =
          recv_packet env timeout
            (st\<lparr>pktqueue := q, trace := trace st @ [Log_warn_unparseable dlt]\<rparr>))
   \<and> (\<not> running st \<and> dlt_to_decoder env dlt = None
        \<and> queue_get timeout (pktqueue st) = Got (dev, dlt, p) q \<longrightarrow>
      recv_body env (dev, dlt, p) (st\<lparr>pktqueue := q\<rparr>) = (Break, st\<lparr>pktqueue := q\<rparr>)
      \<and> recv_packet env timeout st = (Raised (Exn Shutdown []), st\<lparr>pktqueue := q\<rparr>))
   \<and> (recv_packet env timeout st = (Returned r, st') \<longrightarrow>
      (\<exists>e\<in>set (pktqueue st). dlt_to_decoder env (fst (snd e)) \<noteq> None \<and>
         (\<exists>p decoder pkt. snd (snd e) = Some p \<and> dlt_to_decoder env (fst (snd e)) = Some decoder
            \<and> decoder (raw p) = Inr pkt \<and> r = ReceivedPacket (timestamp p) (fst e) pkt)))"
proof (intro conjI impI)
  assume "dlt_to_decoder env dlt = None"
  then show "fst (recv_body env (dev, dlt, p) st) \<in> {Break, Continue}"
    by (simp add: recv_body_def)
next
  assume a: "running st \<and> dlt_to_decoder env dlt = None
        \<and> queue_get timeout (pktqueue st) = Got (dev, dlt, p) q"
  then show "recv_body env (dev, dlt, p) (st\<lparr>pktqueue := q\<rparr>)
        = (Continue, st\<lparr>pktqueue := q, trace := trace st @ [Log_warn_unparseable dlt]\<rparr>)"
    by (simp add: recv_body_def)
  from a show "recv_packet env timeout st =
          recv_packet env timeout
            (st\<lparr>pktqueue := q, trace := trace st @ [Log_warn_unparseable dlt]\<rparr>)"
    using recv_packet_Continue by blast
next
  assume a: "\<not> running st \<and> dlt_to_decoder env dlt = None
        \<and> queue_get timeout (pktqueue st) = Got (dev, dlt, p) q"
  then show "recv_body env (dev, dlt, p) (st\<lparr>pktqueue := q\<rparr>) = (Break, st\<lparr>pktqueue := q\<rparr>)"
    by (simp add: recv_body_def)
  from a show "recv_packet env timeout st = (Raised (Exn Shutdown []), st\<lparr>pktqueue := q\<rparr>)"
    using recv_packet_Break by blast
next
  assume "recv_packet env timeout st = (Returned r, st')"
  from recv_packet_Returned [OF this]
  obtain dev dlt p decoder pkt where
    m: "(dev, dlt, Some p) \<in> set (pktqueue st)" and d: "dlt_to_decoder env dlt = Some decoder"
    and k: "decoder (raw p) = Inr pkt" and r: "r = ReceivedPacket (timestamp p) dev pkt"
    by blast
  then show "\<exists>e\<in>set (pktqueue st). dlt_to_decoder env (fst (snd e)) \<noteq> None \<and>
         (\<exists>p decoder pkt. snd (snd e) = Some p \<and> dlt_to_decoder env (fst (snd e)) = Some decoder
            \<and> decoder (raw p) = Inr pkt \<and> r = ReceivedPacket (timestamp p) (fst e) pkt)"
    by (intro bexI [of _ "(dev, dlt, Some p)"]) auto
qed

theorem recv_packet_skips_undecodable_witness:
  "dlt_to_decoder example_env (Some (DLT_OTHER 105)) = None
   \<and> recv_packet example_env None
        (example_state\<lparr>pktqueue := [(Some ''eth1'', Some (DLT_OTHER 105), Some example_pktinfo),
                                     (Some ''eth0'', Some DLT_EN10MB, Some example_pktinfo)]\<rparr>)
     = recv_packet example_env None
        (example_state\<lparr>pktqueue := [(Some ''eth0'', Some DLT_EN10MB, Some example_pktinfo)],
                        trace := [Log_warn_unparseable (Some (DLT_OTHER 105))]\<rparr>)
   \<and> recv_packet example_env None
        (example_state\<lparr>pktqueue := [(Some ''eth1'', Some (DLT_OTHER 105), Some example_pktinfo),
                                     (Some ''eth0'', Some DLT_EN10MB, Some example_pktinfo)]\<rparr>)
     = (Returned (ReceivedPacket 1 (Some ''eth0'') [222, 173]),
        example_state\<lparr>trace := [Log_warn_unparseable (Some (DLT_OTHER 105))]\<rparr>)
   \<and> recv_packet example_env None
        (example_state\<lparr>running := False,
           pktqueue := [(Some ''eth1'', Some (DLT_OTHER 105), Some example_pktinfo)]\<rparr>)
     = (Raised (Exn Shutdown []), example_state\<lparr>running := False, pktqueue := []\<rparr>)"
proof -
  let ?u = "(Some ''eth1'', Some (DLT_OTHER 105), Some example_pktinfo)"
  let ?e = "(Some ''eth0'', Some DLT_EN10MB, Some example_pktinfo)"
  let ?st = "example_state\<lparr>pktqueue := [?u, ?e]\<rparr>"
  let ?sf = "example_state\<lparr>running := False, pktqueue := [?u]\<rparr>"
  have h: "running ?st \<and> dlt_to_decoder example_env (Some (DLT_OTHER 105)) = None
        \<and> queue_get None (pktqueue ?st) = Got ?u [?e]"
    by (simp add: example_state_def)
  with recv_packet_skips_undecodable
         [of example_env "Some (DLT_OTHER 105)" "Some ''eth1''" "Some example_pktinfo" ?st None "[?e]"]
  have a: "recv_packet example_env None ?st =
          recv_packet example_env None
            (?st\<lparr>pktqueue := [?e], trace := trace ?st @ [Log_warn_unparseable (Some (DLT_OTHER 105))]\<rparr>)"
    by blast
  have h': "\<not> running ?sf \<and> dlt_to_decoder example_env (Some (DLT_OTHER 105)) = None
        \<and> queue_get None (pktqueue ?sf) = Got ?u []"
    by simp
  with recv_packet_skips_undecodable
         [of example_env "Some (DLT_OTHER 105)" "Some ''eth1''" "Some example_pktinfo" ?sf None "[]"]
  have b: "recv_packet example_env None ?sf = (Raised (Exn Shutdown []), ?sf\<lparr>pktqueue := []\<rparr>)"
    by blast
  from a b show ?thesis
    by (simp add: example_state_def example_env_def example_pktinfo_def recv_body_def)
qed

text \<open>
  The claim as stated fails when the flag is false: the entry without decoder is popped,
  no warning is logged, the loop ends and \<open>Shutdown\<close> is raised, with the next entry
  still in the queue.
\<close>

theorem recv_packet_undecodable_flag_false_counterexample:
  "dlt_to_decoder example_env (Some (DLT_OTHER 105)) = None
   \<and> recv_packet example_env None
        (example_state\<lparr>running := False,
           pktqueue := [(Some ''eth1'', Some (DLT_OTHER 105), Some example_pktinfo),
                        (Some ''eth0'', Some DLT_EN10MB, Some example_pktinfo)]\<rparr>)
     = (Raised (Exn Shutdown []),
        example_state\<lparr>running := False,
           pktqueue := [(Some ''eth0'', Some DLT_EN10MB, Some example_pktinfo)]\<rparr>)
   \<and> trace (snd (recv_packet example_env None
        (example_state\<lparr>running := False,
           pktqueue := [(Some ''eth1'', Some (DLT_OTHER 105), Some example_pktinfo),
                        (Some ''eth0'', Some DLT_EN10MB, Some example_pktinfo)]\<rparr>))) = []"
  by (simp add: example_state_def recv_body_def)

text \<open>
  C9. Whatever entry a pop yields, the sentinel or a captured packet: if the flag is
  false after the pop, the pass through the loop ends in \<open>break\<close>, \<open>recv_packet\<close> raises
  \<open>Shutdown\<close>, and the entry is gone from the queue without having been returned.
\<close>

theorem recv_packet_discards_after_shutdown:
  assumes "queue_get timeout (pktqueue st) = Got e q"
    and "\<not> running (st\<lparr>pktqueue := q\<rparr>)"
  shows "recv_body env e (st\<lparr>pktqueue := q\<rparr>) = (Break, st\<lparr>pktqueue := q\<rparr>)
       \<and> recv_packet env timeout st = (Raised (Exn Shutdown []), st\<lparr>pktqueue := q\<rparr>)"
proof -
  from assms(2) have r: "\<not> running st" by simp
  have "recv_body env e (st\<lparr>pktqueue := q\<rparr>) = (Break, st\<lparr>pktqueue := q\<rparr>)"
    using r by (simp add: recv_body_def split: prod.splits)
  with recv_packet_Break [OF r assms(1)] show ?thesis by simp
qed

theorem recv_packet_discards_after_shutdown_witness:
  "queue_get None (pktqueue (example_state\<lparr>running := False,
       pktqueue := [(Some ''eth0'', Some DLT_EN10MB, Some example_pktinfo)]\<rparr>))
     = Got (Some ''eth0'', Some DLT_EN10MB, Some example_pktinfo) []
   \<and> recv_packet example_env None
        (example_state\<lparr>running := False,
           pktqueue := [(Some ''eth0'', Some DLT_EN10MB, Some example_pktinfo)]\<rparr>)
     = (Raised (Exn Shutdown []), example_state\<lparr>running := False, pktqueue := []\<rparr>)"
proof -
  let ?e = "(Some ''eth0'', Some DLT_EN10MB, Some example_pktinfo)"
  let ?st = "example_state\<lparr>running := False, pktqueue := [?e]\<rparr>"
  have h1: "queue_get None (pktqueue ?st) = Got ?e []" by simp
  have h2: "\<not> running (?st\<lparr>pktqueue := []\<rparr>)" by simp
  from recv_packet_discards_after_shutdown [OF h1 h2, of example_env] h1
  show ?thesis by simp
qed

section \<open>Properties of shutdown, of the workers and of the signal handler\<close>

lemma shutdown_not_running: "\<not> running st \<Longrightarrow> shutdown st = st"
  by (simp add: shutdown_def)

lemma running_shutdown: "\<not> running (shutdown st)"
  by (simp add: shutdown_def log_debug_def Let_def)

lemma shutdown_running:
  "running st \<Longrightarrow>
   shutdown st =
     st\<lparr>running := False,
        pcaps := map pdev_close (pcaps st),
        trace := trace st @ [Set_running False, Log_debug ''Joining threads for shutdown'']
                 @ map Join (threads st) @ [Log_debug ''Closing pcap devices'']
                 @ map (\<lambda>item. Close (fst item)) (pcaps st)
                 @ [Log_debug ''Done cleaning up'']\<rparr>"
  by (simp add: shutdown_def log_debug_def Let_def)







lemma sig_handler_SIGINT:
  "sig_handler SIGINT st =
     st\<lparr>running := False,
        pktqueue := (if pktqueue st = [] then [sentinel] else pktqueue st),
        trace := trace st @ [Log_debug ''Got SIGINT.'', Set_running False]
                 @ (if pktqueue st = [] then [Put sentinel] else [])\<rparr>"
  by (simp add: sig_handler_def log_debug_def Let_def)

lemma sig_handler_other:
  "signum \<noteq> SIGINT \<Longrightarrow> sig_handler signum st = log_debug ''Got SIGINT.'' st"
  by (simp add: sig_handler_def Let_def)









text \<open>
  C2, as amended. The handler is installed for five signals, but acts on one: delivery of
  \<open>SIGINT\<close> sets the flag to false and, if the queue is empty at that moment, puts the
  sentinel; any other signal (among them \<open>SIGTERM\<close>) only writes the debug line and
  leaves the flag and the queue as they are.
\<close>

theorem sig_handler_effect:
  "\<not> running (sig_handler SIGINT st)
   \<and> pktqueue (sig_handler SIGINT st) = (if pktqueue st = [] then [sentinel] else pktqueue st)
   \<and> (signum \<noteq> SIGINT \<longrightarrow>
        sig_handler signum st = log_debug ''Got SIGINT.'' st
        \<and> running (sig_handler signum st) = running st
        \<and> pktqueue (sig_handler signum st) = pktqueue st)
   \<and> (deliver_signal signum st \<noteq> None) = (signum \<in> {SIGINT, SIGTERM, SIGHUP, SIGUSR1, SIGUSR2})"
  by (auto simp: sig_handler_SIGINT sig_handler_other log_debug_def deliver_signal_def
      handled_signals_def)

theorem sig_handler_effect_witness:
  "SIGHUP \<noteq> SIGINT
   \<and> running (sig_handler SIGHUP example_state) = running example_state
   \<and> pktqueue (sig_handler SIGHUP example_state) = pktqueue example_state
   \<and> \<not> running (sig_handler SIGINT example_state)
   \<and> pktqueue (sig_handler SIGINT example_state) = [sentinel]"
proof -
  have h: "SIGHUP \<noteq> SIGINT" by simp
  have q: "pktqueue example_state = []" by (simp add: example_state_def)
  from sig_handler_effect [of example_state SIGHUP] h q show ?thesis
    by (simp add: log_debug_def)
qed

text \<open>
  The claim as stated fails for the termination signal: \<open>SIGTERM\<close> is delivered to the
  handler with the flag true and the queue empty, and afterwards the flag is still true
  and the queue still empty.
\<close>

theorem sigterm_leaves_flag_counterexample:
  "deliver_signal SIGTERM example_state = Some (sig_handler SIGTERM example_state)
   \<and> pktqueue example_state = []
   \<and> running (sig_handler SIGTERM example_state) = True
   \<and> pktqueue (sig_handler SIGTERM example_state) = []"
  by (simp add: deliver_signal_def handled_signals_def sig_handler_def log_debug_def
      example_state_def Let_def)

text \<open>
  C7, as amended. \<open>shutdown\<close> is idempotent: called with the flag false it returns at
  once and changes nothing; after any call the flag is false, so a second call is such a
  call. If the flag was true when the first call began, the two calls together call
  \<open>close\<close> once on each device of \<open>_pcaps\<close>; if it was false already, neither call
  closes a device.
\<close>

theorem shutdown_idempotent:
  "(\<not> running st \<longrightarrow> shutdown st = st)
   \<and> \<not> running (shutdown st)
   \<and> shutdown (shutdown st) = shutdown st
   \<and> (running st \<longrightarrow>
        pcaps (shutdown (shutdown st)) = map pdev_close (pcaps st)
        \<and> map (\<lambda>item. pd_closes (snd item)) (pcaps (shutdown (shutdown st)))
            = map (\<lambda>item. Suc (pd_closes (snd item))) (pcaps st)
        \<and> trace (shutdown (shutdown st)) =
            trace st @ [Set_running False, Log_debug ''Joining threads for shutdown'']
            @ map Join (threads st) @ [Log_debug ''Closing pcap devices'']
            @ map (\<lambda>item. Close (fst item)) (pcaps st)
            @ [Log_debug ''Done cleaning up''])
   \<and> (\<not> running st \<longrightarrow>
        shutdown (shutdown st) = st
        \<and> map (\<lambda>item. pd_closes (snd item)) (pcaps (shutdown (shutdown st)))
            = map (\<lambda>item. pd_closes (snd item)) (pcaps st)
        \<and> trace (shutdown (shutdown st)) = trace st)"
proof -
  have idem: "shutdown (shutdown st) = shutdown st"
    using running_shutdown [of st] by (rule shutdown_not_running)
  show ?thesis
    unfolding idem
    by (auto simp: shutdown_not_running running_shutdown shutdown_running pdev_close_def)
qed

theorem shutdown_idempotent_witness:
  "running example_state
   \<and> shutdown (shutdown example_state) = shutdown example_state
   \<and> map (\<lambda>item. pd_closes (snd item)) (pcaps example_state) = [0, 0]
   \<and> map (\<lambda>item. pd_closes (snd item)) (pcaps (shutdown (shutdown example_state))) = [1, 1]
   \<and> shutdown (shutdown (example_state\<lparr>running := False\<rparr>)) = example_state\<lparr>running := False\<rparr>"
proof -
  have r: "running example_state" by (simp add: example_state_def)
  have n: "\<not> running (example_state\<lparr>running := False\<rparr>)" by simp
  have p: "map (\<lambda>item. pd_closes (snd item)) (pcaps example_state) = [0, 0]"
    by (simp add: example_state_def)
  from shutdown_idempotent [of example_state] r
  have i: "shutdown (shutdown example_state) = shutdown example_state"
    and c: "map (\<lambda>item. pd_closes (snd item)) (pcaps (shutdown (shutdown example_state)))
            = map (\<lambda>item. Suc (pd_closes (snd item))) (pcaps example_state)"
    by blast+
  have c': "map (\<lambda>item. pd_closes (snd item)) (pcaps (shutdown (shutdown example_state))) = [1, 1]"
    unfolding c by (simp add: example_state_def)
  from shutdown_idempotent [of "example_state\<lparr>running := False\<rparr>"] n
  have z: "shutdown (shutdown (example_state\<lparr>running := False\<rparr>))
           = example_state\<lparr>running := False\<rparr>"
    by blast
  from r i p c' z show ?thesis by blast
qed

text \<open>
  The claim as stated fails when a signal has ended the run before: after \<open>SIGINT\<close> the
  first call of \<open>shutdown\<close> completes with the flag false, the second as well, and no
  device has been closed by either.
\<close>

theorem shutdown_twice_after_sigint_counterexample:
  "running example_state
   \<and> \<not> running (shutdown (sig_handler SIGINT example_state))
   \<and> map (\<lambda>item. pd_closes (snd item)) (pcaps (sig_handler SIGINT example_state)) = [0, 0]
   \<and> map (\<lambda>item. pd_closes (snd item))
        (pcaps (shutdown (shutdown (sig_handler SIGINT example_state)))) = [0, 0]
   \<and> trace (shutdown (shutdown (sig_handler SIGINT example_state)))
       = [Log_debug ''Got SIGINT.'', Set_running False, Put sentinel]"
  by (simp add: sig_handler_SIGINT shutdown_def example_state_def)




section \<open>Properties of the send path\<close>

lemma send_packet_unknown:
  "resolve_dev env dev = Inr nm \<Longrightarrow> map_of (pcaps st) nm = None \<Longrightarrow>
   send_packet env dev packet st =
     (Raised (Exn SwitchyException (''Unrecognized device name for packet send: '' @ nm)), st)"
  by (simp add: send_packet_def)

lemma send_packet_PyNone:
  "resolve_dev env dev = Inr nm \<Longrightarrow> map_of (pcaps st) nm = Some pdev \<Longrightarrow>
   send_packet env dev PyNone st =
     (Raised (Exn SwitchyException ''No packet object given to send_packet''), st)"
  by (simp add: send_packet_def)

lemma send_packet_PyOther:
  "resolve_dev env dev = Inr nm \<Longrightarrow> map_of (pcaps st) nm = Some pdev \<Longrightarrow>
   send_packet env dev (PyOther ty) st =
     (Raised (Exn SwitchyException
                (''Object given to send_packet is not a Packet (it is: '' @ ty @ '')'')), st)"
  by (simp add: send_packet_def)

lemma send_packet_unresolved:
  "resolve_dev env dev = Inl x \<Longrightarrow> send_packet env dev packet st = (Raised x, st)"
  by (simp add: send_packet_def)

text \<open>
  C3, as amended. The device is checked before the packet. For a device reference that
  resolves to a name with a device in \<open>_pcaps\<close>, \<open>send_packet\<close> with \<open>None\<close> or with an
  object that is not a \<open>Packet\<close> raises the exception for an invalid packet and changes
  nothing. For a reference that resolves to a name without a device it raises the
  exception for an unrecognized device, whatever the packet is. A reference that does
  not resolve at all is a number that \<open>_lookup_devname\<close> rejects, and then the call
  raises what the lookup raised, whatever the packet is.
\<close>

theorem send_packet_invalid_packet:
  "(resolve_dev env dev = Inr nm \<and> map_of (pcaps st) nm = Some pdev \<longrightarrow>
      send_packet env dev PyNone st =
        (Raised (Exn SwitchyException ''No packet object given to send_packet''), st)
      \<and> send_packet env dev (PyOther ty) st =
        (Raised (Exn SwitchyException
                   (''Object given to send_packet is not a Packet (it is: '' @ ty @ '')'')), st))
   \<and> (resolve_dev env dev = Inr nm \<and> map_of (pcaps st) nm = None \<longrightarrow>
      send_packet env dev packet st =
        (Raised (Exn SwitchyException (''Unrecognized device name for packet send: '' @ nm)), st))
   \<and> (resolve_dev env dev = Inl x \<longrightarrow> send_packet env dev packet st = (Raised x, st))
   \<and> (resolve_dev env dev = Inl x) = (\<exists>n. dev = DevNum n \<and> lookup_devname env n = Inl x)"
proof -
  have "(resolve_dev env dev = Inl x) = (\<exists>n. dev = DevNum n \<and> lookup_devname env n = Inl x)"
    by (cases dev) (simp_all add: resolve_dev_def)
  then show ?thesis
    by (simp add: send_packet_unknown send_packet_PyNone send_packet_PyOther
        send_packet_unresolved)
qed

theorem send_packet_invalid_packet_witness:
  "resolve_dev example_env (DevNum 0) = Inr ''eth0''
   \<and> send_packet example_env (DevNum 0) PyNone example_state =
       (Raised (Exn SwitchyException ''No packet object given to send_packet''), example_state)
   \<and> send_packet example_env (DevNum 0) (PyOther ''bytes'') example_state =
       (Raised (Exn SwitchyException
                  ''Object given to send_packet is not a Packet (it is: bytes)''), example_state)
   \<and> resolve_dev example_env (DevName ''en7'') = Inr ''en7''
   \<and> send_packet example_env (DevName ''en7'') (PyPacket [1]) example_state =
       (Raised (Exn SwitchyException ''Unrecognized device name for packet send: en7''),
        example_state)
   \<and> resolve_dev example_env (DevNum 99) = Inl (Exn SwitchyException ''No such interface'')
   \<and> send_packet example_env (DevNum 99) PyNone example_state =
       (Raised (Exn SwitchyException ''No such interface''), example_state)"
proof -
  have r: "resolve_dev example_env (DevNum 0) = Inr ''eth0''"
    by (simp add: resolve_dev_def example_env_def)
  have m: "map_of (pcaps example_state) ''eth0''
           = Some \<lparr>pd_name = ''eth0'', pd_dlt = DLT_EN10MB, pd_stats = (0, 0, 0), pd_closes = 0\<rparr>"
    by (simp add: example_state_def)
  have r': "resolve_dev example_env (DevName ''en7'') = Inr ''en7''"
    by (simp add: resolve_dev_def)
  have m': "map_of (pcaps example_state) ''en7'' = None"
    by (simp add: example_state_def)
  have r'': "resolve_dev example_env (DevNum 99) = Inl (Exn SwitchyException ''No such interface'')"
    by (simp add: resolve_dev_def example_env_def)
  from send_packet_invalid_packet [of example_env "DevNum 0" "''eth0''" example_state _ "''bytes''"] r m
  have a: "send_packet example_env (DevNum 0) PyNone example_state =
       (Raised (Exn SwitchyException ''No packet object given to send_packet''), example_state)
     \<and> send_packet example_env (DevNum 0) (PyOther ''bytes'') example_state =
       (Raised (Exn SwitchyException
                  ''Object given to send_packet is not a Packet (it is: bytes)''), example_state)"
    by simp
  from send_packet_invalid_packet [of example_env "DevName ''en7''" "''en7''" example_state _ _ "PyPacket [1]"] r' m'
  have b: "send_packet example_env (DevName ''en7'') (PyPacket [1]) example_state =
       (Raised (Exn SwitchyException ''Unrecognized device name for packet send: en7''),
        example_state)"
    by simp
  from send_packet_invalid_packet [of example_env "DevNum 99" _ example_state _ _ PyNone
         "Exn SwitchyException ''No such interface''"] r''
  have c: "send_packet example_env (DevNum 99) PyNone example_state =
       (Raised (Exn SwitchyException ''No such interface''), example_state)"
    by blast
  from r a r' b r'' c show ?thesis by blast
qed

text \<open>
  The claim as stated fails for a device that is not known: with \<open>packet=None\<close> the call
  on \<open>baddev\<close> reports the device, the call on \<open>eth0\<close> reports the packet, so the
  validity of the device does change the outcome.
\<close>

theorem send_packet_bad_device_first_counterexample:
  "send_packet example_env (DevName ''baddev'') PyNone example_state =
     (Raised (Exn SwitchyException ''Unrecognized device name for packet send: baddev''),
      example_state)
   \<and> send_packet example_env (DevName ''eth0'') PyNone example_state =
     (Raised (Exn SwitchyException ''No packet object given to send_packet''), example_state)
   \<and> send_packet example_env (DevName ''baddev'') PyNone example_state
     \<noteq> send_packet example_env (DevName ''eth0'') PyNone example_state"
  by (simp add: send_packet_def resolve_dev_def example_state_def)

text \<open>
  C4, as amended. A call that fails because the device name is not recognized and a call
  that fails because the packet is \<open>None\<close> or not a \<open>Packet\<close> raise exceptions of the same
  class, \<open>SwitchyException\<close>; what differs is the message.
\<close>

theorem send_packet_failure_kinds:
  assumes "resolve_dev env dev1 = Inr nm1" and "map_of (pcaps st) nm1 = None"
    and "resolve_dev env dev2 = Inr nm2" and "map_of (pcaps st) nm2 = Some pdev"
    and "packet2 = PyNone \<or> packet2 = PyOther ty"
  shows "\<exists>x1 x2. fst (send_packet env dev1 packet1 st) = Raised x1
           \<and> fst (send_packet env dev2 packet2 st) = Raised x2
           \<and> exn_cls x1 = SwitchyException \<and> exn_cls x2 = SwitchyException
           \<and> exn_msg x1 = ''Unrecognized device name for packet send: '' @ nm1
           \<and> exn_msg x2 \<in> {''No packet object given to send_packet'',
                            ''Object given to send_packet is not a Packet (it is: '' @ ty @ '')''}
           \<and> exn_msg x1 \<noteq> exn_msg x2"
proof -
  let ?x1 = "Exn SwitchyException (''Unrecognized device name for packet send: '' @ nm1)"
  have 1: "fst (send_packet env dev1 packet1 st) = Raised ?x1"
    using send_packet_unknown [OF assms(1,2)] by simp
  from assms(5) show ?thesis
  proof
    assume "packet2 = PyNone"
    then have "fst (send_packet env dev2 packet2 st)
               = Raised (Exn SwitchyException ''No packet object given to send_packet'')"
      using send_packet_PyNone [OF assms(3,4)] by simp
    with 1 show ?thesis by simp
  next
    assume "packet2 = PyOther ty"
    then have "fst (send_packet env dev2 packet2 st)
               = Raised (Exn SwitchyException
                   (''Object given to send_packet is not a Packet (it is: '' @ ty @ '')''))"
      using send_packet_PyOther [OF assms(3,4)] by simp
    with 1 show ?thesis by simp
  qed
qed

theorem send_packet_failure_kinds_witness:
  "fst (send_packet example_env (DevName ''baddev'') (PyPacket [222, 173]) example_state)
     = Raised (Exn SwitchyException ''Unrecognized device name for packet send: baddev'')
   \<and> fst (send_packet example_env (DevName ''eth0'') (PyOther ''bytes'') example_state)
     = Raised (Exn SwitchyException ''Object given to send_packet is not a Packet (it is: bytes)'')"
proof -
  have a1: "resolve_dev example_env (DevName ''baddev'') = Inr ''baddev''"
    by (simp add: resolve_dev_def)
  have a2: "map_of (pcaps example_state) ''baddev'' = None"
    by (simp add: example_state_def)
  have a3: "resolve_dev example_env (DevName ''eth0'') = Inr ''eth0''"
    by (simp add: resolve_dev_def)
  have a4: "map_of (pcaps example_state) ''eth0''
           = Some \<lparr>pd_name = ''eth0'', pd_dlt = DLT_EN10MB, pd_stats = (0, 0, 0), pd_closes = 0\<rparr>"
    by (simp add: example_state_def)
  have a5: "PyOther ''bytes'' = (PyNone :: bytes pyobj) \<or> PyOther ''bytes'' = (PyOther ''bytes'' :: bytes pyobj)"
    by simp
  from send_packet_failure_kinds [OF a1 a2 a3 a4 a5, of "PyPacket [222, 173]"]
  obtain x1 x2 where
    f1: "fst (send_packet example_env (DevName ''baddev'') (PyPacket [222, 173]) example_state) = Raised x1"
    and f2: "fst (send_packet example_env (DevName ''eth0'') (PyOther ''bytes'') example_state) = Raised x2"
    and c1: "exn_cls x1 = SwitchyException" and c2: "exn_cls x2 = SwitchyException"
    and m1: "exn_msg x1 = ''Unrecognized device name for packet send: '' @ ''baddev''"
    and m2: "exn_msg x2 \<in> {''No packet object given to send_packet'',
                  ''Object given to send_packet is not a Packet (it is: '' @ ''bytes'' @ '')''}"
    by blast
  have "fst (send_packet example_env (DevName ''eth0'') (PyOther ''bytes'') example_state)
     = Raised (Exn SwitchyException ''Object given to send_packet is not a Packet (it is: bytes)'')"
    by (simp add: send_packet_def a3 a4)
  moreover have "x1 = Exn SwitchyException ''Unrecognized device name for packet send: baddev''"
    using c1 m1 by (cases x1) simp
  ultimately show ?thesis using f1 by simp
qed

text \<open>
  The claim as stated fails: the exception for the unknown device \<open>baddev\<close> and the
  exception for \<open>packet=None\<close> on \<open>eth0\<close> have the same class.
\<close>

theorem send_packet_same_kind_counterexample:
  "fst (send_packet example_env (DevName ''baddev'') (PyPacket [222, 173]) example_state)
     = Raised (Exn SwitchyException ''Unrecognized device name for packet send: baddev'')
   \<and> fst (send_packet example_env (DevName ''eth0'') PyNone example_state)
     = Raised (Exn SwitchyException ''No packet object given to send_packet'')
   \<and> exn_cls (Exn SwitchyException ''Unrecognized device name for packet send: baddev'')
     = exn_cls (Exn SwitchyException ''No packet object given to send_packet'')"
  by (simp add: send_packet_def resolve_dev_def example_state_def)

end
